theory Spec2Isabelle
  imports Main
begin

section \<open>caddy-geo-ip: the shared database state and the request handler\<close>

text \<open>
  The development follows \<^verbatim>\<open>state.go\<close> (the shared state: \<^verbatim>\<open>Provision\<close>,
  \<^verbatim>\<open>reloadDatabase\<close>, \<^verbatim>\<open>downloadDatabase\<close>, \<^verbatim>\<open>Destruct\<close>) and \<^verbatim>\<open>main.go\<close>
  (the handler: \<^verbatim>\<open>GeoIP.Provision\<close>, \<^verbatim>\<open>GeoIP.ServeHTTP\<close>).

  Go errors are values: an \<^verbatim>\<open>error\<close> is a \<open>string option\<close> (\<open>None\<close> is \<^verbatim>\<open>nil\<close>, \<open>Some msg\<close>
  an error with that message). A panic is the outcome \<open>Panic\<close>. Pointers are addresses
  (natural numbers) into a heap of state structs; readers carry the address they were
  allocated at. Everything the program does to the outside (log lines, opening,
  installing and closing readers, lookups, constructor runs, goroutines started) is
  appended to a trace, in program order.

  The mutex \<^verbatim>\<open>state.mu\<close> is taken by \<^verbatim>\<open>reloadDatabase\<close> and \<^verbatim>\<open>Destruct\<close> only, released
  by \<^verbatim>\<open>defer\<close> on every exit, and neither calls the other while holding it; the model
  runs each call as one atomic step and carries no lock field.
\<close>

subsection \<open>Outcomes, events, external data\<close>

datatype 'a res = Ret 'a | Panic string

datatype level = Debug | Info | Warn | Error

text \<open>
  Modelled from the spec: the type \<^verbatim>\<open>Record\<close> that \<^verbatim>\<open>ServeHTTP\<close> decodes a lookup into
  is declared outside the files at hand. The handler reads \<^verbatim>\<open>record.Country.ISOCode\<close>
  (a string) and \<^verbatim>\<open>record.Country.GeonameId\<close> (compared with 0); the spec's Record holds
  "an ISO country/region code and a presence indicator".
\<close>

record Country =
  ISOCode :: string
  GeonameId :: nat

record Record =
  Country :: Country

definition zero_Record :: Record where
  "zero_Record = \<lparr>Country = \<lparr>ISOCode = [], GeonameId = 0\<rparr>\<rparr>"

type_synonym IP = "nat list"

text \<open>
  What \<^verbatim>\<open>(*maxminddb.Reader).Lookup(addr, &record)\<close> does for one address: it returns
  an error, or finds no entry and leaves the record as it was, or decodes the entry
  into the record.
\<close>

datatype lookup_result = LookupError string | NoMatch | Match Record

type_synonym database = "IP \<Rightarrow> lookup_result"

text \<open>
  A path of the file system holds nothing (\<^verbatim>\<open>os.Stat\<close> reports \<^verbatim>\<open>os.ErrNotExist\<close>), or
  something \<^verbatim>\<open>maxminddb.Open\<close> fails on with an error, or a database it opens.
\<close>

datatype dbfile = Invalid string | Valid database

record Reader =
  ptr :: nat
  db :: database

datatype chan = ChanOpen | ChanClosed

datatype job = DownloadJob | ReloadJob

datatype event =
    Log level string
  | Constructed nat
  | Spawned job nat
  | Opened nat
  | Installed nat nat
  | Closed nat
  | ChanClose nat
  | Looked nat IP

subsection \<open>Standard-library string functions\<close>

text \<open>Go's \<^verbatim>\<open>strings.Index\<close> for one byte and \<^verbatim>\<open>strings.LastIndex\<close> for one byte.\<close>

fun index_byte :: "string \<Rightarrow> char \<Rightarrow> nat option" where
  "index_byte [] c = None"
| "index_byte (x # xs) c =
     (if x = c then Some 0
      else (case index_byte xs c of None \<Rightarrow> None | Some i \<Rightarrow> Some (Suc i)))"

definition last_index :: "string \<Rightarrow> char \<Rightarrow> nat option" where
  "last_index s c =
     (case index_byte (rev s) c of None \<Rightarrow> None | Some i \<Rightarrow> Some (length s - 1 - i))"

text \<open>\<^verbatim>\<open>strings.Replace(s, old, new, 1)\<close> for a non-empty \<^verbatim>\<open>old\<close>: the first occurrence only.\<close>

fun strings_Replace1 :: "string \<Rightarrow> string \<Rightarrow> string \<Rightarrow> string" where
  "strings_Replace1 [] old new = []"
| "strings_Replace1 (c # cs) old new =
     (if take (length old) (c # cs) = old then new @ drop (length old) (c # cs)
      else c # strings_Replace1 cs old new)"

text \<open>\<^verbatim>\<open>filepath.Split\<close>: the path is cut right after its last separator.\<close>

definition filepath_Split :: "string \<Rightarrow> string \<times> string" where
  "filepath_Split path =
     (case last_index path (CHR ''/'') of
        None \<Rightarrow> ([], path)
      | Some i \<Rightarrow> (take (i + 1) path, drop (i + 1) path))"

text \<open>
  \<^verbatim>\<open>net.SplitHostPort\<close> of Go's standard library, branch for branch. On every error
  the Go function returns empty host and port strings beside the error, so the result is
  either the reason of the error or the pair of host and port.
\<close>

definition SplitHostPort :: "string \<Rightarrow> string + string \<times> string" where
  "SplitHostPort hostport =
     (case last_index hostport (CHR '':'') of
        None \<Rightarrow> Inl ''missing port in address''
      | Some i \<Rightarrow>
         (let bracketed =
                (if take 1 hostport = ''[''
                 then (case index_byte hostport (CHR '']'') of
                         None \<Rightarrow> Inl ''missing ']' in address''
                       | Some e \<Rightarrow>
                           if e + 1 = length hostport then Inl ''missing port in address''
                           else if e + 1 = i then Inr (take (e - 1) (drop 1 hostport), 1, e + 1)
                           else if take 1 (drop (e + 1) hostport) = '':''
                                then Inl ''too many colons in address''
                                else Inl ''missing port in address'')
                 else (if index_byte (take i hostport) (CHR '':'') \<noteq> None
                       then Inl ''too many colons in address''
                       else Inr (take i hostport, 0, 0)))
          in case bracketed of
               Inl why \<Rightarrow> Inl why
             | Inr (host, j, k) \<Rightarrow>
                 if index_byte (drop j hostport) (CHR ''['') \<noteq> None
                 then Inl ''unexpected '[' in address''
                 else if index_byte (drop k hostport) (CHR '']'') \<noteq> None
                 then Inl ''unexpected ']' in address''
                 else Inr (host, drop (i + 1) hostport)))"

text \<open>
  \<^verbatim>\<open>net.ParseIP\<close>: the string is scanned for its first \<^verbatim>\<open>.\<close> or \<^verbatim>\<open>:\<close>, which selects the
  IPv4 or the IPv6 parser; a string with neither is no address. The two parsers are
  parameters; the last argument is the part of the string still to be scanned, so the
  call for a string \<open>s\<close> is \<open>ParseIP v4 v6 s s\<close>.
\<close>

fun ParseIP :: "(string \<Rightarrow> IP option) \<Rightarrow> (string \<Rightarrow> IP option) \<Rightarrow> string \<Rightarrow> string \<Rightarrow> IP option" where
  "ParseIP parseIPv4 parseIPv6 s [] = None"
| "ParseIP parseIPv4 parseIPv6 s (c # cs) =
     (if c = CHR ''.'' then parseIPv4 s
      else if c = CHR '':'' then parseIPv6 s
      else ParseIP parseIPv4 parseIPv6 s cs)"

text \<open>
  \<^verbatim>\<open>strconv.Atoi\<close>: an optional sign and at least one decimal digit, the value within
  the 64-bit \<^verbatim>\<open>int\<close>; anything else is an error.
\<close>

definition is_digit :: "char \<Rightarrow> bool" where
  "is_digit c = (of_char c \<ge> (48::nat) \<and> of_char c \<le> (57::nat))"

definition digits_val :: "string \<Rightarrow> int" where
  "digits_val ds = foldl (\<lambda>a c. 10 * a + (int (of_char c) - 48)) 0 ds"

definition Atoi :: "string \<Rightarrow> string + int" where
  "Atoi s =
     (let neg = (take 1 s = ''-'');
          ds = (if take 1 s = ''-'' \<or> take 1 s = ''+'' then drop 1 s else s);
          v = (if neg then - digits_val ds else digits_val ds)
      in if ds \<noteq> [] \<and> list_all is_digit ds
         then (if - (2 ^ 63) \<le> v \<and> v \<le> 2 ^ 63 - 1 then Inr v
               else Inl ''value out of range'')
         else Inl ''invalid syntax'')"

subsection \<open>The shared state and the world around it\<close>

text \<open>
  \<^verbatim>\<open>geoipupdate.Config\<close> as \<^verbatim>\<open>state.Provision\<close> fills it. \<^verbatim>\<open>LockFile\<close> holds the arguments
  of \<^verbatim>\<open>filepath.Join\<close>, which the standard library joins and cleans.
\<close>

record Config =
  AccountID :: int
  DatabaseDirectory :: string
  LicenseKey :: string
  LockFile :: "string list"
  URL :: string
  EditionIDs :: "string list"
  PreserveFileTimes :: bool
  Verbose :: bool
  RetryFor :: int

definition new_Config :: "int \<Rightarrow> string \<Rightarrow> string \<Rightarrow> string \<Rightarrow> Config" where
  "new_Config accountID directoryPath apiKey edition =
     \<lparr>AccountID = accountID,
      DatabaseDirectory = directoryPath,
      LicenseKey = apiKey,
      LockFile = [directoryPath, ''.geoipupdate.lock''],
      URL = ''https://updates.maxmind.com'',
      EditionIDs = [edition],
      PreserveFileTimes = True,
      Verbose = True,
      RetryFor = 5 * 60 * 1000000000\<rparr>"

text \<open>The struct \<^verbatim>\<open>state\<close>; \<^verbatim>\<open>done_ch\<close> is its field \<^verbatim>\<open>done\<close>, \<open>None\<close> a nil channel.\<close>

record state =
  dbInst :: "Reader option"
  done_ch :: "chan option"
  dbPath :: string
  config :: "Config option"

definition zero_state :: state where
  "zero_state = \<lparr>dbInst = None, done_ch = None, dbPath = [], config = None\<rparr>"

text \<open>A running ticker goroutine: the state it works on, its action, its period.\<close>

record ticker =
  target :: nat
  action :: job
  period :: int

text \<open>
  Modelled from the spec: an entry of the instance pool (\<^verbatim>\<open>caddy.UsagePool\<close>, declared
  outside the files at hand), "key -> (refCount, value)"; the value is the pointer the
  constructor returned and \<open>err\<close> the error it returned.
\<close>

record usagePoolVal =
  refs :: nat
  val :: "nat option"
  err :: "string option"

text \<open>
  The whole system: the heap of state structs, the allocator, the package variable
  \<^verbatim>\<open>pool\<close>, the goroutines running, the file system, the environment variables, and the
  external collaborators as functions:
  \<^item> \<open>reader_close r\<close> is what \<^verbatim>\<open>Close\<close> returns for the reader allocated at \<open>r\<close>;
  \<^item> \<open>fetch cfg path edition fs\<close> is one download: the error of
    \<^verbatim>\<open>database.NewLocalFileDatabaseWriter\<close> and, for a writer that was created, the
    error of \<^verbatim>\<open>dbReader.Get\<close> and the file system it leaves behind;
  \<^item> \<open>parseIPv4\<close> and \<open>parseIPv6\<close> are the two parsers behind \<^verbatim>\<open>net.ParseIP\<close>.
\<close>

record sys =
  heap :: "nat \<Rightarrow> state"
  next_ptr :: nat
  pool :: "string \<Rightarrow> usagePoolVal option"
  goroutines :: "ticker list"
  files :: "string \<Rightarrow> dbfile option"
  getenv :: "string \<Rightarrow> string"
  reader_close :: "nat \<Rightarrow> string option"
  fetch :: "Config \<Rightarrow> string \<Rightarrow> string \<Rightarrow> (string \<Rightarrow> dbfile option)
              \<Rightarrow> string option \<times> string option \<times> (string \<Rightarrow> dbfile option)"
  parseIPv4 :: "string \<Rightarrow> IP option"
  parseIPv6 :: "string \<Rightarrow> IP option"
  trace :: "event list"

definition emit :: "event \<Rightarrow> sys \<Rightarrow> sys" where
  "emit e s = s\<lparr>trace := trace s @ [e]\<rparr>"

definition logger :: "level \<Rightarrow> string \<Rightarrow> sys \<Rightarrow> sys" where
  "logger l msg s = emit (Log l msg) s"

definition set_state :: "nat \<Rightarrow> state \<Rightarrow> sys \<Rightarrow> sys" where
  "set_state p st s = s\<lparr>heap := (heap s)(p := st)\<rparr>"

subsection \<open>state.go\<close>

text \<open>
  \<^verbatim>\<open>reloadDatabase\<close>: a missing file is logged and is no error; an open error is
  returned; otherwise the new reader is stored in \<^verbatim>\<open>state.dbInst\<close> and then the old one,
  if any, is closed and the result of that \<^verbatim>\<open>Close\<close> is returned.
\<close>

definition reloadDatabase :: "nat \<Rightarrow> sys \<Rightarrow> string option \<times> sys" where
  "reloadDatabase p s0 =
     (let s = logger Info ''reloading database'' s0 in
      case files s (dbPath (heap s p)) of
        None \<Rightarrow> (None, logger Warn ''database does not exist'' s)
      | Some (Invalid e) \<Rightarrow> (Some e, s)
      | Some (Valid d) \<Rightarrow>
         (let newInstance = \<lparr>ptr = next_ptr s, db = d\<rparr>;
              s1 = emit (Opened (ptr newInstance)) (s\<lparr>next_ptr := next_ptr s + 1\<rparr>);
              oldInstance = dbInst (heap s1 p);
              s2 = emit (Installed p (ptr newInstance))
                     (set_state p ((heap s1 p)\<lparr>dbInst := Some newInstance\<rparr>) s1)
          in case oldInstance of
               Some old \<Rightarrow>
                 (let s3 = logger Info ''closing old database'' s2
                  in (reader_close s3 (ptr old), emit (Closed (ptr old)) s3))
             | None \<Rightarrow> (None, logger Info ''reload successful'' s2)))"

text \<open>
  \<^verbatim>\<open>downloadDatabase\<close>: a nil \<^verbatim>\<open>state.config\<close> or an empty \<^verbatim>\<open>EditionIDs\<close> panics at
  \<^verbatim>\<open>state.config.EditionIDs[0]\<close>. An error of \<^verbatim>\<open>NewLocalFileDatabaseWriter\<close> is logged
  and the function goes on, with no return, to \<^verbatim>\<open>dbReader.Get(dbWriter, edition)\<close>: the
  writer it hands over is then a nil pointer, and \<^verbatim>\<open>Get\<close> (geoipupdate v4.9.0, the version
  of \<^verbatim>\<open>go.mod\<close>) calls the writer's methods, which read its fields, so the call panics
  with a nil pointer dereference before anything is downloaded or reloaded. With a
  writer, the error of \<^verbatim>\<open>Get\<close> is logged and nothing else, and the result is the result
  of \<^verbatim>\<open>reloadDatabase\<close>.
\<close>

definition downloadDatabase :: "nat \<Rightarrow> sys \<Rightarrow> string option res \<times> sys" where
  "downloadDatabase p s =
     (case config (heap s p) of
        None \<Rightarrow> (Panic ''invalid memory address or nil pointer dereference'', s)
      | Some cfg \<Rightarrow>
         (case EditionIDs cfg of
            [] \<Rightarrow> (Panic ''index out of range [0] with length 0'', s)
          | edition # _ \<Rightarrow>
             (let s1 = logger Info ''starting download'' s;
                  (werr, gerr, fs) = fetch s1 cfg (dbPath (heap s1 p)) edition (files s1)
              in case werr of
                   Some e \<Rightarrow>
                     (Panic ''invalid memory address or nil pointer dereference'',
                      logger Error ''creating maxmind db writer'' s1)
                 | None \<Rightarrow>
                     (let s3 = s1\<lparr>files := fs\<rparr>;
                          s4 = (if gerr \<noteq> None then logger Error ''getting database'' s3 else s3);
                          s5 = logger Info ''finished download'' s4;
                          (r, s6) = reloadDatabase p s5
                      in (Ret r, s6)))))"

text \<open>
  \<^verbatim>\<open>Destruct\<close>: \<^verbatim>\<open>close(state.done)\<close> runs whenever \<^verbatim>\<open>state.done\<close> is not nil, and Go
  panics when the channel is closed already; then the reader, if any, is closed.
  Neither field is reset.
\<close>

definition Destruct :: "nat \<Rightarrow> sys \<Rightarrow> string option res \<times> sys" where
  "Destruct p s =
     (case done_ch (heap s p) of
        Some ChanClosed \<Rightarrow> (Panic ''close of closed channel'', s)
      | other \<Rightarrow>
         (let s1 = (case other of
                      None \<Rightarrow> s
                    | Some c \<Rightarrow> emit (ChanClose p)
                                 (set_state p ((heap s p)\<lparr>done_ch := Some ChanClosed\<rparr>) s))
          in case dbInst (heap s1 p) of
               Some r \<Rightarrow> (Ret (reader_close s1 (ptr r)), emit (Closed (ptr r)) s1)
             | None \<Rightarrow> (Ret None, s1)))"

text \<open>
  The goroutine \<^verbatim>\<open>state.Provision\<close> starts: \<^verbatim>\<open>go\<close> adds a ticker to the running ones.
\<close>

definition go :: "ticker \<Rightarrow> sys \<Rightarrow> sys" where
  "go t s = emit (Spawned (action t) (target t)) (s\<lparr>goroutines := goroutines s @ [t]\<rparr>)"

subsection \<open>The handler's configuration\<close>

text \<open>The struct \<^verbatim>\<open>GeoIP\<close>; \<open>state\<close> is the pointer \<^verbatim>\<open>m.state\<close>, \<open>None\<close> when nil.\<close>

record GeoIP =
  AccountID :: int
  APIKey :: string
  DbPath :: string
  DownloadFrequency :: int
  ReloadFrequency :: int
  TrustHeader :: string
  OverrideCountryCode :: string
  state :: "nat option"

text \<open>
  \<^verbatim>\<open>state.Provision\<close>: with an account, a key and a download frequency it builds the
  download configuration, starts the download ticker and returns what
  \<^verbatim>\<open>downloadDatabase\<close> returns; otherwise it starts the reload ticker when a reload
  frequency is set, reloads once, and wraps the error of that reload.
\<close>

definition state_Provision :: "nat \<Rightarrow> GeoIP \<Rightarrow> sys \<Rightarrow> string option res \<times> sys" where
  "state_Provision p m s0 =
     (let s = set_state p ((heap s0 p)\<lparr>done_ch := Some ChanOpen, dbPath := DbPath m\<rparr>) s0 in
      if AccountID m > 0 \<and> APIKey m \<noteq> [] \<and> DownloadFrequency m > 0
      then
        (let s1 = logger Info ''starting download ticker'' s;
             (directoryPath, filename) = filepath_Split (dbPath (heap s1 p));
             edition = strings_Replace1 filename ''.mmdb'' [];
             cfg = new_Config (AccountID m) directoryPath (APIKey m) edition;
             s2 = set_state p ((heap s1 p)\<lparr>config := Some cfg\<rparr>) s1;
             s3 = go \<lparr>target = p, action = DownloadJob, period = DownloadFrequency m\<rparr> s2
         in downloadDatabase p s3)
      else
        (let s1 = (if ReloadFrequency m > 0
                   then go \<lparr>target = p, action = ReloadJob, period = ReloadFrequency m\<rparr>
                          (logger Info ''starting reload ticker'' s)
                   else s);
             (e, s2) = reloadDatabase p s1
         in case e of
              Some msg \<Rightarrow> (Ret (Some (''cannot open database file '' @ DbPath m @ '': '' @ msg)), s2)
            | None \<Rightarrow> (Ret None, s2)))"

text \<open>
  One turn of a ticker goroutine's \<^verbatim>\<open>select\<close>. On \<^verbatim>\<open>ticker.C\<close> it runs its action and logs
  an error; on \<^verbatim>\<open>state.done\<close>, which is ready only once the channel is closed, it logs
  and returns. The result says whether the goroutine is still running.
\<close>

datatype wake = TickerC | DoneC

definition ticker_step :: "ticker \<Rightarrow> wake \<Rightarrow> sys \<Rightarrow> bool res \<times> sys" where
  "ticker_step g w s =
     (case w of
        TickerC \<Rightarrow>
          (case action g of
             DownloadJob \<Rightarrow>
               (case downloadDatabase (target g) s of
                  (Panic msg, s1) \<Rightarrow> (Panic msg, s1)
                | (Ret None, s1) \<Rightarrow> (Ret True, s1)
                | (Ret (Some e), s1) \<Rightarrow> (Ret True, logger Error ''downloading database failed'' s1))
           | ReloadJob \<Rightarrow>
               (case reloadDatabase (target g) s of
                  (None, s1) \<Rightarrow> (Ret True, s1)
                | (Some e, s1) \<Rightarrow> (Ret True, logger Error ''reload database failed'' s1)))
      | DoneC \<Rightarrow>
          (if done_ch (heap s (target g)) = Some ChanClosed
           then (Ret False,
                 (logger Info (case action g of DownloadJob \<Rightarrow> ''downloading stopped''
                                              | ReloadJob \<Rightarrow> ''reloading stopped'') s)
                   \<lparr>goroutines := remove1 g (goroutines s)\<rparr>)
           else (Ret True, s)))"

definition logStatus :: "nat \<Rightarrow> sys \<Rightarrow> sys" where
  "logStatus p s =
     (case dbInst (heap s p) of
        None \<Rightarrow> logger Info ''no geo database available'' s
      | Some r \<Rightarrow> logger Debug ''geo database available'' s)"

subsection \<open>The instance pool\<close>

text \<open>
  Modelled from the spec: \<^verbatim>\<open>LoadOrNew\<close> of \<^verbatim>\<open>caddy.UsagePool\<close> is declared outside
  the files at hand; the spec's acquireOrCreate: "If an entry for key already exists,
  increments its reference count and returns the existing SharedState without invoking
  the factory or re-provisioning. Otherwise invokes the factory, stores the result with
  reference count 1, and returns it." The result is the value, whether it was loaded,
  and the error.
\<close>

definition LoadOrNew ::
  "string \<Rightarrow> (sys \<Rightarrow> (nat option \<times> string option) res \<times> sys) \<Rightarrow> sys
     \<Rightarrow> (nat option \<times> bool \<times> string option) res \<times> sys" where
  "LoadOrNew key construct s =
     (case pool s key of
        Some upv \<Rightarrow>
          (Ret (val upv, True, err upv), s\<lparr>pool := (pool s)(key \<mapsto> upv\<lparr>refs := refs upv + 1\<rparr>)\<rparr>)
      | None \<Rightarrow>
          (case construct (s\<lparr>pool := (pool s)(key \<mapsto> \<lparr>refs = 1, val = None, err = None\<rparr>)\<rparr>) of
             (Panic msg, s1) \<Rightarrow> (Panic msg, s1)
           | (Ret (v, e), s1) \<Rightarrow>
               (Ret (v, False, e),
                s1\<lparr>pool := (pool s1)(key \<mapsto>
                       \<lparr>refs = 1, val = (if e = None then v else None), err = e\<rparr>)\<rparr>)))"

subsection \<open>main.go\<close>

text \<open>
  The constructor \<^verbatim>\<open>GeoIP.Provision\<close> hands to the pool: it allocates a state, runs
  \<^verbatim>\<open>state.Provision\<close> on it, drops what that returns, and returns the pointer with a
  nil error.
\<close>

definition constructor :: "GeoIP \<Rightarrow> sys \<Rightarrow> (nat option \<times> string option) res \<times> sys" where
  "constructor m s =
     (let p = next_ptr s;
          s1 = emit (Constructed p) (set_state p zero_state (s\<lparr>next_ptr := p + 1\<rparr>))
      in case state_Provision p m s1 of
           (Panic msg, s2) \<Rightarrow> (Panic msg, s2)
         | (Ret dropped, s2) \<Rightarrow> (Ret (Some p, None), s2))"

text \<open>The three environment variables, in the order \<^verbatim>\<open>GeoIP.Provision\<close> reads them.\<close>

definition load_env :: "GeoIP \<Rightarrow> sys \<Rightarrow> string + GeoIP" where
  "load_env m s =
     (case (if getenv s ''GEOIP_ACCOUNT_ID'' \<noteq> []
            then (case Atoi (getenv s ''GEOIP_ACCOUNT_ID'') of
                    Inl e \<Rightarrow> Inl (''reading account id: '' @ e)
                  | Inr i \<Rightarrow> Inr (m\<lparr>AccountID := i\<rparr>))
            else Inr m) of
        Inl e \<Rightarrow> Inl e
      | Inr m1 \<Rightarrow>
          (let m2 = (if getenv s ''GEOIP_API_KEY'' \<noteq> []
                     then m1\<lparr>APIKey := getenv s ''GEOIP_API_KEY''\<rparr> else m1);
               m3 = (if getenv s ''GEOIP_OVERRIDE_COUNTRY_CODE'' \<noteq> []
                     then m2\<lparr>OverrideCountryCode := getenv s ''GEOIP_OVERRIDE_COUNTRY_CODE''\<rparr>
                     else m2)
           in Inr m3))"

text \<open>
  \<^verbatim>\<open>GeoIP.Provision\<close>: the key of the pool is the constant \<^verbatim>\<open>"geoip.state"\<close>. The
  result is the error returned, the handler as it is left, and the system.
\<close>

definition GeoIP_Provision :: "GeoIP \<Rightarrow> sys \<Rightarrow> string option res \<times> GeoIP \<times> sys" where
  "GeoIP_Provision m s =
     (case load_env m s of
        Inl e \<Rightarrow> (Ret (Some e), m, s)
      | Inr m1 \<Rightarrow>
          (case LoadOrNew ''geoip.state'' (constructor m1) s of
             (Panic msg, s1) \<Rightarrow> (Panic msg, m1, s1)
           | (Ret (tmp, loaded, Some e), s1) \<Rightarrow>
               (Ret (Some e), m1, logger Error ''unable to load previous state'' s1)
           | (Ret (Some p, loaded, None), s1) \<Rightarrow>
               (Ret None, m1\<lparr>state := Some p\<rparr>, logStatus p s1)
           | (Ret (None, loaded, None), s1) \<Rightarrow> (Ret None, m1, s1)))"

text \<open>
  A request as \<^verbatim>\<open>ServeHTTP\<close> sees it: \<open>Header_Get\<close> is \<^verbatim>\<open>r.Header.Get\<close> (the empty string
  for a header that is absent), \<open>repl\<close> the variables of the replacer in the request's
  context. The handler either passes the request on to the next handler or fails with
  the error of the lookup.
\<close>

record request =
  Header_Get :: "string \<Rightarrow> string"
  RemoteAddr :: string
  repl :: "string \<Rightarrow> string option"

datatype served = Next request | Failed string

definition repl_Set :: "string \<Rightarrow> string \<Rightarrow> request \<Rightarrow> request" where
  "repl_Set k v r = r\<lparr>repl := (repl r)(k \<mapsto> v)\<rparr>"

text \<open>The first statement of \<^verbatim>\<open>ServeHTTP\<close>: a trusted header replaces \<^verbatim>\<open>r.RemoteAddr\<close>.\<close>

definition trust_header :: "GeoIP \<Rightarrow> request \<Rightarrow> request" where
  "trust_header m r =
     (if TrustHeader m \<noteq> [] \<and> Header_Get r (TrustHeader m) \<noteq> []
      then r\<lparr>RemoteAddr := Header_Get r (TrustHeader m)\<rparr> else r)"

text \<open>
  \<^verbatim>\<open>ServeHTTP\<close>: when the address does not split, the host is the empty string and the
  handler goes on to parse it; an address that does not parse passes the request on
  untouched; with no reader the sentinel and then the override are set; otherwise the
  reader is asked, its error fails the request, and the code of the record (the zero
  record when nothing matched) is set, then the override when the record has no
  \<^verbatim>\<open>GeonameId\<close>.
\<close>

definition ServeHTTP :: "GeoIP \<Rightarrow> request \<Rightarrow> sys \<Rightarrow> served res \<times> sys" where
  "ServeHTTP m r0 s0 =
     (let r = trust_header m r0;
          s1 = logger Debug ''loading ip address'' s0;
          (remoteIp, s2) =
             (case SplitHostPort (RemoteAddr r) of
                Inl why \<Rightarrow> ([], logger Warn ''cannot split IP address'' s1)
              | Inr (host, port) \<Rightarrow> (host, s1))
      in case ParseIP (parseIPv4 s2) (parseIPv6 s2) remoteIp remoteIp of
           None \<Rightarrow> (Ret (Next r), logger Warn ''cannot parse IP address'' s2)
         | Some addr \<Rightarrow>
            (case state m of
               None \<Rightarrow> (Panic ''invalid memory address or nil pointer dereference'', s2)
             | Some p \<Rightarrow>
                (case dbInst (heap s2 p) of
                   None \<Rightarrow>
                     (let s3 = logger Warn ''no database loaded, skipping geoip lookup'' s2;
                          r1 = repl_Set ''geoip.country_code'' ''--'' r;
                          r2 = (if OverrideCountryCode m \<noteq> []
                                then repl_Set ''geoip.country_code'' (OverrideCountryCode m) r1
                                else r1)
                      in (Ret (Next r2), s3))
                 | Some rd \<Rightarrow>
                     (let s3 = emit (Looked (ptr rd) addr) s2 in
                      case db rd addr of
                        LookupError e \<Rightarrow>
                          (Ret (Failed e), logger Warn ''cannot lookup IP address'' s3)
                      | found \<Rightarrow>
                          (let record = (case found of Match rc \<Rightarrow> rc | other \<Rightarrow> zero_Record);
                               r1 = repl_Set ''geoip.country_code'' (ISOCode (Country record)) r;
                               s4 = logger Debug ''found maxmind data'' s3;
                               r2 = (if OverrideCountryCode m \<noteq> []
                                        \<and> GeonameId (Country record) = 0
                                     then repl_Set ''geoip.country_code'' (OverrideCountryCode m) r1
                                     else r1)
                           in (Ret (Next r2), s4))))))"

subsection \<open>Observations and the host\<close>

text \<open>What a step appended to the trace: the events of \<open>s'\<close> after those of \<open>s\<close>.\<close>

definition since :: "sys \<Rightarrow> sys \<Rightarrow> event list" where
  "since s s' = drop (length (trace s)) (trace s')"

text \<open>
  The variable \<^verbatim>\<open>geoip.country_code\<close> of the request handed to the next handler; none
  when the request failed or the handler panicked.
\<close>

definition published :: "served res \<Rightarrow> string option" where
  "published out =
     (case out of
        Ret (Next r) \<Rightarrow> repl r ''geoip.country_code''
      | Ret (Failed e) \<Rightarrow> None
      | Panic msg \<Rightarrow> None)"

text \<open>
  The states the pool's constructor built, and the readers that were closed, each in the
  order of the trace.
\<close>

fun constructed :: "event list \<Rightarrow> nat list" where
  "constructed [] = []"
| "constructed (Constructed p # evs) = p # constructed evs"
| "constructed (other # evs) = constructed evs"

fun closed_readers :: "event list \<Rightarrow> nat list" where
  "closed_readers [] = []"
| "closed_readers (Closed r # evs) = r # closed_readers evs"
| "closed_readers (other # evs) = closed_readers evs"


text \<open>
  The system in which the constructor runs \<^verbatim>\<open>state.Provision\<close> when the pool has no
  entry yet: the pool holds the entry under construction, and a zero state stands at
  the next free address. This is the only call of \<^verbatim>\<open>state.Provision\<close> in the program.
\<close>

definition fresh_state :: "sys \<Rightarrow> sys" where
  "fresh_state s =
     emit (Constructed (next_ptr s))
       (set_state (next_ptr s) zero_state
          (s\<lparr>pool := (pool s)(''geoip.state'' \<mapsto> \<lparr>refs = 1, val = None, err = None\<rparr>),
             next_ptr := next_ptr s + 1\<rparr>))"

subsection \<open>Example systems\<close>

text \<open>
  A database with one entry; an empty system whose downloads fail and leave the disk
  alone; a system whose state at address 1 holds an open reader, and the same with a
  download configuration; the empty system with a good and with a corrupt file on disk;
  systems in which the download writer cannot be created; a system in which closing a
  reader fails.
\<close>

definition nz_db :: database where
  "nz_db ip = (if ip = [202, 36, 75, 151]
               then Match \<lparr>Country = \<lparr>ISOCode = ''NZ'', GeonameId = 2186224\<rparr>\<rparr>
               else NoMatch)"

definition boot :: sys where
  "boot = \<lparr>heap = (\<lambda>p. zero_state), next_ptr = 1, pool = Map.empty, goroutines = [],
            files = Map.empty, getenv = (\<lambda>k. []), reader_close = (\<lambda>r. None),
            fetch = (\<lambda>cfg path edition fs. (None, Some ''401 Unauthorized'', fs)),
            parseIPv4 = (\<lambda>a. if a = ''202.36.75.151'' then Some [202, 36, 75, 151]
                              else if a = ''10.0.0.1'' then Some [10, 0, 0, 1] else None),
            parseIPv6 = (\<lambda>a. None), trace = []\<rparr>"

definition loaded :: sys where
  "loaded = boot\<lparr>heap := (\<lambda>p. zero_state)
                     (1 := \<lparr>dbInst = Some \<lparr>ptr = 2, db = nz_db\<rparr>, done_ch = Some ChanOpen,
                            dbPath = ''a.mmdb'', config = None\<rparr>),
                  next_ptr := 3\<rparr>"

definition downloading :: sys where
  "downloading = loaded\<lparr>heap := (heap loaded)
                   (1 := (heap loaded 1)\<lparr>config := Some (new_Config 1000 [] ''key'' ''a'')\<rparr>),
                 files := [''a.mmdb'' \<mapsto> Valid nz_db]\<rparr>"

definition on_disk :: sys where
  "on_disk = boot\<lparr>files := [''a.mmdb'' \<mapsto> Valid nz_db]\<rparr>"

definition corrupt :: sys where
  "corrupt = boot\<lparr>files := [''a.mmdb'' \<mapsto> Invalid ''invalid MaxMind DB file'']\<rparr>"

definition unwritable :: sys where
  "unwritable = downloading\<lparr>fetch := (\<lambda>cfg path edition fs.
                   (Some ''open .geoipupdate.lock: permission denied'', None, fs))\<rparr>"

definition readonly :: sys where
  "readonly = on_disk\<lparr>fetch := (\<lambda>cfg path edition fs.
                   (Some ''open .geoipupdate.lock: permission denied'', None, fs))\<rparr>"


text \<open>
  A handler that reloads daily and trusts \<^verbatim>\<open>X-Real-IP\<close>, the same with another path, the
  same in download mode, the same once provisioned, and a request that carries the
  header.
\<close>

definition reloading :: GeoIP where
  "reloading = \<lparr>AccountID = 0, APIKey = [], DbPath = ''a.mmdb'', DownloadFrequency = 0,
                 ReloadFrequency = 86400000000000, TrustHeader = ''X-Real-IP'',
                 OverrideCountryCode = [], state = None\<rparr>"


definition subscriber :: GeoIP where
  "subscriber = reloading\<lparr>AccountID := 1000, APIKey := ''key'',
                           DownloadFrequency := 86400000000000\<rparr>"

definition trusting :: GeoIP where
  "trusting = reloading\<lparr>state := Some 1\<rparr>"

definition via_proxy :: "string \<Rightarrow> request" where
  "via_proxy v = \<lparr>Header_Get = (\<lambda>k. if k = ''X-Real-IP'' then v else []),
                  RemoteAddr = ''127.0.0.1:40000'', repl = Map.empty\<rparr>"

section \<open>Properties\<close>

subsection \<open>Projections of the small steps\<close>

lemma emit_simps [simp]:
  "trace (emit e s) = trace s @ [e]"
  "heap (emit e s) = heap s"
  "next_ptr (emit e s) = next_ptr s"
  "pool (emit e s) = pool s"
  "goroutines (emit e s) = goroutines s"
  "files (emit e s) = files s"
  "getenv (emit e s) = getenv s"
  "reader_close (emit e s) = reader_close s"
  "fetch (emit e s) = fetch s"
  "parseIPv4 (emit e s) = parseIPv4 s"
  "parseIPv6 (emit e s) = parseIPv6 s"
  by (simp_all add: emit_def)

lemma logger_simps [simp]:
  "trace (logger l msg s) = trace s @ [Log l msg]"
  "heap (logger l msg s) = heap s"
  "next_ptr (logger l msg s) = next_ptr s"
  "pool (logger l msg s) = pool s"
  "goroutines (logger l msg s) = goroutines s"
  "files (logger l msg s) = files s"
  "getenv (logger l msg s) = getenv s"
  "reader_close (logger l msg s) = reader_close s"
  "fetch (logger l msg s) = fetch s"
  "parseIPv4 (logger l msg s) = parseIPv4 s"
  "parseIPv6 (logger l msg s) = parseIPv6 s"
  by (simp_all add: logger_def)

lemma set_state_simps [simp]:
  "trace (set_state p st s) = trace s"
  "heap (set_state p st s) = (heap s)(p := st)"
  "next_ptr (set_state p st s) = next_ptr s"
  "pool (set_state p st s) = pool s"
  "goroutines (set_state p st s) = goroutines s"
  "files (set_state p st s) = files s"
  "getenv (set_state p st s) = getenv s"
  "reader_close (set_state p st s) = reader_close s"
  "fetch (set_state p st s) = fetch s"
  "parseIPv4 (set_state p st s) = parseIPv4 s"
  "parseIPv6 (set_state p st s) = parseIPv6 s"
  by (simp_all add: set_state_def)

lemma go_simps [simp]:
  "trace (go t s) = trace s @ [Spawned (action t) (target t)]"
  "heap (go t s) = heap s"
  "next_ptr (go t s) = next_ptr s"
  "pool (go t s) = pool s"
  "goroutines (go t s) = goroutines s @ [t]"
  "files (go t s) = files s"
  "getenv (go t s) = getenv s"
  "reader_close (go t s) = reader_close s"
  "fetch (go t s) = fetch s"
  "parseIPv4 (go t s) = parseIPv4 s"
  "parseIPv6 (go t s) = parseIPv6 s"
  by (simp_all add: go_def)

lemma constructed_append [simp]: "constructed (xs @ ys) = constructed xs @ constructed ys"
  by (induction xs rule: constructed.induct) simp_all

lemma closed_readers_append [simp]:
  "closed_readers (xs @ ys) = closed_readers xs @ closed_readers ys"
  by (induction xs rule: closed_readers.induct) simp_all

lemma logStatus_simps [simp]:
  "heap (logStatus p s) = heap s"
  "next_ptr (logStatus p s) = next_ptr s"
  "pool (logStatus p s) = pool s"
  "goroutines (logStatus p s) = goroutines s"
  "files (logStatus p s) = files s"
  "getenv (logStatus p s) = getenv s"
  "reader_close (logStatus p s) = reader_close s"
  "fetch (logStatus p s) = fetch s"
  "parseIPv4 (logStatus p s) = parseIPv4 s"
  "parseIPv6 (logStatus p s) = parseIPv6 s"
  "constructed (trace (logStatus p s)) = constructed (trace s)"
  by (simp_all add: logStatus_def split: option.splits)

lemmas run_defs = GeoIP_Provision_def load_env_def LoadOrNew_def constructor_def
        state_Provision_def reloadDatabase_def Let_def boot_def reloading_def
        zero_state_def go_def logStatus_def logger_def emit_def set_state_def

subsection \<open>Reloading\<close>

lemma reload_absent:
  "files s (dbPath (heap s p)) = None \<Longrightarrow>
   reloadDatabase p s =
     (None, logger Warn ''database does not exist'' (logger Info ''reloading database'' s))"
  by (simp add: reloadDatabase_def)

lemma reload_invalid:
  "files s (dbPath (heap s p)) = Some (Invalid e) \<Longrightarrow>
   reloadDatabase p s = (Some e, logger Info ''reloading database'' s)"
  by (simp add: reloadDatabase_def)

lemma reload_valid_result:
  "files s (dbPath (heap s p)) = Some (Valid d) \<Longrightarrow>
   fst (reloadDatabase p s) =
     (case dbInst (heap s p) of None \<Rightarrow> None | Some old \<Rightarrow> reader_close s (ptr old))"
  by (simp add: reloadDatabase_def Let_def split: option.splits)

lemma reload_valid_heap:
  "files s (dbPath (heap s p)) = Some (Valid d) \<Longrightarrow>
   heap (snd (reloadDatabase p s)) =
     (heap s)(p := (heap s p)\<lparr>dbInst := Some \<lparr>ptr = next_ptr s, db = d\<rparr>\<rparr>)"
  by (simp add: reloadDatabase_def Let_def split: option.splits)

lemma reload_valid_trace:
  "files s (dbPath (heap s p)) = Some (Valid d) \<Longrightarrow>
   trace (snd (reloadDatabase p s)) =
     trace s @ [Log Info ''reloading database'', Opened (next_ptr s), Installed p (next_ptr s)] @
       (case dbInst (heap s p) of
          None \<Rightarrow> [Log Info ''reload successful'']
        | Some old \<Rightarrow> [Log Info ''closing old database'', Closed (ptr old)])"
  by (simp add: reloadDatabase_def Let_def split: option.splits)


lemma reload_constructed [simp]:
  "constructed (trace (snd (reloadDatabase p s))) = constructed (trace s)"
  by (simp add: reloadDatabase_def Let_def split: option.splits dbfile.splits)


text \<open>
  C5. When the file exists and \<^verbatim>\<open>maxminddb.Open\<close> fails, \<^verbatim>\<open>reloadDatabase\<close> returns that
  error and changes nothing but the log: the heap is the same, so the state holds the
  reader it held before, and nothing was opened, installed or closed. The reload ticker
  that meets the error keeps running and leaves the heap as it was.
\<close>

theorem reload_open_error_keeps_handle:
  assumes "files s (dbPath (heap s p)) = Some (Invalid e)"
  shows "fst (reloadDatabase p s) = Some e
       \<and> heap (snd (reloadDatabase p s)) = heap s
       \<and> dbInst (heap (snd (reloadDatabase p s)) p) = dbInst (heap s p)
       \<and> since s (snd (reloadDatabase p s)) = [Log Info ''reloading database'']
       \<and> fst (ticker_step \<lparr>target = p, action = ReloadJob, period = d\<rparr> TickerC s) = Ret True
       \<and> heap (snd (ticker_step \<lparr>target = p, action = ReloadJob, period = d\<rparr> TickerC s)) = heap s"
  using assms by (simp add: reload_invalid since_def ticker_step_def)

theorem reload_open_error_keeps_handle_witness:
  "files (loaded\<lparr>files := [''a.mmdb'' \<mapsto> Invalid ''bad'']\<rparr>) ''a.mmdb'' = Some (Invalid ''bad'')
   \<and> fst (reloadDatabase 1 (loaded\<lparr>files := [''a.mmdb'' \<mapsto> Invalid ''bad'']\<rparr>)) = Some ''bad''
   \<and> dbInst (heap (snd (reloadDatabase 1 (loaded\<lparr>files := [''a.mmdb'' \<mapsto> Invalid ''bad'']\<rparr>))) 1)
       = Some \<lparr>ptr = 2, db = nz_db\<rparr>"
  using reload_open_error_keeps_handle
          [of "loaded\<lparr>files := [''a.mmdb'' \<mapsto> Invalid ''bad'']\<rparr>" 1 "''bad''" 0]
  by (simp add: loaded_def boot_def)

text \<open>
  C6. When a reload opens the file while the state holds an old reader, the new reader
  is in \<^verbatim>\<open>state.dbInst\<close> afterwards, and the events of the reload are, in this order:
  the new reader is opened, it is installed, the old reader is closed. The old reader
  is closed once, and the installation stands before that close.
\<close>

theorem reload_closes_old_after_install:
  assumes "files s (dbPath (heap s p)) = Some (Valid d)"
      and "dbInst (heap s p) = Some old"
  shows "dbInst (heap (snd (reloadDatabase p s)) p) = Some \<lparr>ptr = next_ptr s, db = d\<rparr>
       \<and> since s (snd (reloadDatabase p s)) =
           [Log Info ''reloading database'', Opened (next_ptr s), Installed p (next_ptr s),
            Log Info ''closing old database'', Closed (ptr old)]
       \<and> count_list (since s (snd (reloadDatabase p s))) (Closed (ptr old)) = 1
       \<and> Installed p (next_ptr s)
           \<in> set (takeWhile (\<lambda>ev. ev \<noteq> Closed (ptr old)) (since s (snd (reloadDatabase p s))))"
  using assms by (simp add: reload_valid_heap reload_valid_trace since_def)

theorem reload_closes_old_after_install_witness:
  "files (loaded\<lparr>files := [''a.mmdb'' \<mapsto> Valid nz_db]\<rparr>) ''a.mmdb'' = Some (Valid nz_db)
   \<and> dbInst (heap (loaded\<lparr>files := [''a.mmdb'' \<mapsto> Valid nz_db]\<rparr>) 1) = Some \<lparr>ptr = 2, db = nz_db\<rparr>
   \<and> since (loaded\<lparr>files := [''a.mmdb'' \<mapsto> Valid nz_db]\<rparr>)
        (snd (reloadDatabase 1 (loaded\<lparr>files := [''a.mmdb'' \<mapsto> Valid nz_db]\<rparr>))) =
       [Log Info ''reloading database'', Opened 3, Installed 1 3,
        Log Info ''closing old database'', Closed 2]"
  using reload_closes_old_after_install
          [of "loaded\<lparr>files := [''a.mmdb'' \<mapsto> Valid nz_db]\<rparr>" 1 nz_db "\<lparr>ptr = 2, db = nz_db\<rparr>"]
  by (simp add: loaded_def boot_def)

subsection \<open>Downloading\<close>

text \<open>
  With a writer, \<^verbatim>\<open>downloadDatabase\<close> is a reload on the file system the download left,
  whatever error the download returned; without one it panics before the reload.
\<close>

lemma download_as_reload:
  assumes "config (heap s p) = Some cfg" and "EditionIDs cfg = edition # others"
      and "fetch s cfg (dbPath (heap s p)) edition (files s) = (None, gerr, fs)"
  shows "\<exists>s5. files s5 = fs \<and> heap s5 = heap s \<and> next_ptr s5 = next_ptr s
             \<and> reader_close s5 = reader_close s
             \<and> trace s5 = trace s @ [Log Info ''starting download'']
                  @ (if gerr \<noteq> None then [Log Error ''getting database''] else [])
                  @ [Log Info ''finished download'']
             \<and> downloadDatabase p s = (Ret (fst (reloadDatabase p s5)), snd (reloadDatabase p s5))"
proof -
  let ?s3 = "(logger Info ''starting download'' s)\<lparr>files := fs\<rparr>"
  let ?s5 = "logger Info ''finished download''
               (if gerr \<noteq> None then logger Error ''getting database'' ?s3 else ?s3)"
  have "downloadDatabase p s = (Ret (fst (reloadDatabase p ?s5)), snd (reloadDatabase p ?s5))"
    using assms by (simp add: downloadDatabase_def Let_def split_beta)
  moreover have "files ?s5 = fs" "heap ?s5 = heap s" "next_ptr ?s5 = next_ptr s"
    "reader_close ?s5 = reader_close s" by simp_all
  moreover have "trace ?s5 = trace s @ [Log Info ''starting download'']
                  @ (if gerr \<noteq> None then [Log Error ''getting database''] else [])
                  @ [Log Info ''finished download'']" by simp
  ultimately show ?thesis by blast
qed

lemma download_panics:
  assumes "config (heap s p) = Some cfg" and "EditionIDs cfg = edition # others"
      and "fetch s cfg (dbPath (heap s p)) edition (files s) = (Some e, gerr, fs)"
  shows "downloadDatabase p s =
           (Panic ''invalid memory address or nil pointer dereference'',
            logger Error ''creating maxmind db writer'' (logger Info ''starting download'' s))"
  using assms by (simp add: downloadDatabase_def Let_def)

lemma download_returns:
  assumes "config (heap s p) = Some cfg" and "EditionIDs cfg = edition # others"
      and "fetch s cfg (dbPath (heap s p)) edition (files s) = (None, gerr, fs)"
  shows "\<exists>r. fst (downloadDatabase p s) = Ret r"
  using assms by (simp add: downloadDatabase_def Let_def split_beta)



lemma download_then_reload:
  assumes "config (heap s p) = Some cfg" and "EditionIDs cfg = edition # others"
      and "fetch s cfg (dbPath (heap s p)) edition (files s) = (None, gerr, fs)"
  shows "fst (downloadDatabase p s) =
           Ret (case fs (dbPath (heap s p)) of
                  None \<Rightarrow> None
                | Some (Invalid e) \<Rightarrow> Some e
                | Some (Valid d) \<Rightarrow>
                    (case dbInst (heap s p) of None \<Rightarrow> None
                                            | Some old \<Rightarrow> reader_close s (ptr old)))
       \<and> dbInst (heap (snd (downloadDatabase p s)) p) =
           (case fs (dbPath (heap s p)) of
              None \<Rightarrow> dbInst (heap s p)
            | Some (Invalid e) \<Rightarrow> dbInst (heap s p)
            | Some (Valid d) \<Rightarrow> Some \<lparr>ptr = next_ptr s, db = d\<rparr>)
       \<and> take (length (if gerr \<noteq> None then [Log Error ''getting database''] else []) + 3)
            (since s (snd (downloadDatabase p s))) =
           [Log Info ''starting download'']
             @ (if gerr \<noteq> None then [Log Error ''getting database''] else [])
             @ [Log Info ''finished download'', Log Info ''reloading database'']"
proof -
  obtain s5 where s5: "files s5 = fs" "heap s5 = heap s" "next_ptr s5 = next_ptr s"
      "reader_close s5 = reader_close s"
      "trace s5 = trace s @ [Log Info ''starting download'']
                  @ (if gerr \<noteq> None then [Log Error ''getting database''] else [])
                  @ [Log Info ''finished download'']"
      and eq: "downloadDatabase p s = (Ret (fst (reloadDatabase p s5)), snd (reloadDatabase p s5))"
    using download_as_reload [OF assms] by blast
  show ?thesis
  proof (cases "fs (dbPath (heap s p))")
    case None
    then have "reloadDatabase p s5 =
        (None, logger Warn ''database does not exist'' (logger Info ''reloading database'' s5))"
      using s5 by (simp add: reload_absent)
    with None s5 eq show ?thesis by (auto simp: since_def)
  next
    case (Some f)
    show ?thesis
    proof (cases f)
      case (Invalid e)
      with Some have "reloadDatabase p s5 = (Some e, logger Info ''reloading database'' s5)"
        using s5 by (simp add: reload_invalid)
      with Some Invalid s5 eq show ?thesis by (auto simp: since_def)
    next
      case (Valid d)
      with Some have f: "files s5 (dbPath (heap s5 p)) = Some (Valid d)" using s5 by simp
      show ?thesis
        using Some Valid s5 eq reload_valid_result [OF f] reload_valid_heap [OF f]
          reload_valid_trace [OF f]
        by (auto simp: since_def split: option.splits)
    qed
  qed
qed

text \<open>
  C7. The claim asks that \<^verbatim>\<open>downloadDatabase\<close> reloads after the download attempt whatever
  error the download or the writer gave. For the error of \<^verbatim>\<open>dbReader.Get\<close> it does: the
  error is logged, the reload runs and its result is returned. For the error of
  \<^verbatim>\<open>NewLocalFileDatabaseWriter\<close> it does not: the error is logged, the nil writer goes to
  \<^verbatim>\<open>Get\<close>, and the call panics before any reload, in the ticker as well as in the first
  provisioning of a handler in download mode.
\<close>

theorem writer_error_panics_before_reload:
  "config (heap unwritable 1) = Some (new_Config 1000 [] ''key'' ''a'')
   \<and> fst (fetch unwritable (new_Config 1000 [] ''key'' ''a'') ''a.mmdb'' ''a'' (files unwritable))
       = Some ''open .geoipupdate.lock: permission denied''
   \<and> fst (downloadDatabase 1 unwritable)
       = Panic ''invalid memory address or nil pointer dereference''
   \<and> since unwritable (snd (downloadDatabase 1 unwritable))
       = [Log Info ''starting download'', Log Error ''creating maxmind db writer'']
   \<and> fst (ticker_step \<lparr>target = 1, action = DownloadJob, period = 1\<rparr> TickerC unwritable)
       = Panic ''invalid memory address or nil pointer dereference''
   \<and> fst (GeoIP_Provision subscriber readonly)
       = Panic ''invalid memory address or nil pointer dereference''
   \<and> fst (downloadDatabase 1 downloading) = Ret None
   \<and> since downloading (snd (downloadDatabase 1 downloading))
       = [Log Info ''starting download'', Log Error ''getting database'',
          Log Info ''finished download'', Log Info ''reloading database'', Opened 3,
          Installed 1 3, Log Info ''closing old database'', Closed 2]"
  by (simp add: run_defs unwritable_def readonly_def on_disk_def subscriber_def downloading_def
        loaded_def downloadDatabase_def new_Config_def since_def ticker_step_def
        filepath_Split_def last_index_def)

subsection \<open>Provisioning the state\<close>

lemma provision_reload_branch:
  assumes "\<not> (AccountID m > 0 \<and> APIKey m \<noteq> [] \<and> DownloadFrequency m > 0)"
  shows "\<exists>s1. heap s1 = (heap s)(p := (heap s p)\<lparr>done_ch := Some ChanOpen, dbPath := DbPath m\<rparr>)
             \<and> files s1 = files s \<and> next_ptr s1 = next_ptr s \<and> reader_close s1 = reader_close s
             \<and> pool s1 = pool s
             \<and> trace s1 = trace s @ (if ReloadFrequency m > 0
                                       then [Log Info ''starting reload ticker'', Spawned ReloadJob p]
                                       else [])
             \<and> goroutines s1 = goroutines s @
                  (if ReloadFrequency m > 0
                   then [\<lparr>target = p, action = ReloadJob, period = ReloadFrequency m\<rparr>] else [])
             \<and> snd (state_Provision p m s) = snd (reloadDatabase p s1)
             \<and> fst (state_Provision p m s) =
                  Ret (case fst (reloadDatabase p s1) of
                         None \<Rightarrow> None
                       | Some msg \<Rightarrow> Some (''cannot open database file '' @ DbPath m @ '': '' @ msg))"
proof -
  let ?s0 = "set_state p ((heap s p)\<lparr>done_ch := Some ChanOpen, dbPath := DbPath m\<rparr>) s"
  let ?s1 = "if ReloadFrequency m > 0
             then go \<lparr>target = p, action = ReloadJob, period = ReloadFrequency m\<rparr>
                    (logger Info ''starting reload ticker'' ?s0)
             else ?s0"
  have c: "(AccountID m > 0 \<and> APIKey m \<noteq> [] \<and> DownloadFrequency m > 0) = False"
    using assms by simp
  have "snd (state_Provision p m s) = snd (reloadDatabase p ?s1)"
    and "fst (state_Provision p m s) =
           Ret (case fst (reloadDatabase p ?s1) of
                  None \<Rightarrow> None
                | Some msg \<Rightarrow> Some (''cannot open database file '' @ DbPath m @ '': '' @ msg))"
    by (simp_all add: state_Provision_def c Let_def split_beta split: option.splits)
  moreover have "heap ?s1 = (heap s)(p := (heap s p)\<lparr>done_ch := Some ChanOpen, dbPath := DbPath m\<rparr>)"
    "files ?s1 = files s" "next_ptr ?s1 = next_ptr s" "reader_close ?s1 = reader_close s"
    "pool ?s1 = pool s"
    by (simp_all add: go_def)
  moreover have "trace ?s1 = trace s @ (if ReloadFrequency m > 0
                                       then [Log Info ''starting reload ticker'', Spawned ReloadJob p]
                                       else [])"
     "goroutines ?s1 = goroutines s @
                  (if ReloadFrequency m > 0
                   then [\<lparr>target = p, action = ReloadJob, period = ReloadFrequency m\<rparr>] else [])"
    by (simp_all add: go_def)
  ultimately show ?thesis by blast
qed


lemma state_Provision_reload_returns:
  assumes "\<not> (AccountID m > 0 \<and> APIKey m \<noteq> [] \<and> DownloadFrequency m > 0)"
  shows "\<exists>r. fst (state_Provision p m s) = Ret r"
  using provision_reload_branch [OF assms, of s p] by auto









subsection \<open>Destroying the state\<close>

lemma Destruct_again:
  assumes "done_ch (heap s p) = Some c"
  shows "fst (Destruct p (snd (Destruct p s))) = Panic ''close of closed channel''"
  using assms by (cases c) (simp_all add: Destruct_def Let_def split: option.splits)

text \<open>
  C2, as the code has it. The close of \<^verbatim>\<open>state.done\<close> is guarded against a nil channel
  only. On a state whose channel is open, \<^verbatim>\<open>Destruct\<close> closes the channel, then the
  reader if there is one, and returns what closing the reader returned; a second call
  on that state panics with "close of closed channel" and changes nothing. On a state
  whose channel is nil the close is skipped and the channel stays nil.
\<close>

theorem Destruct_unguarded_second_close:
  assumes "done_ch (heap s p) = Some ChanOpen"
      and "done_ch (heap s0 q) = None"
  shows "fst (Destruct p s) =
           Ret (case dbInst (heap s p) of None \<Rightarrow> None | Some r \<Rightarrow> reader_close s (ptr r))
       \<and> done_ch (heap (snd (Destruct p s)) p) = Some ChanClosed
       \<and> since s (snd (Destruct p s)) =
           ChanClose p # (case dbInst (heap s p) of None \<Rightarrow> [] | Some r \<Rightarrow> [Closed (ptr r)])
       \<and> Destruct p (snd (Destruct p s)) = (Panic ''close of closed channel'', snd (Destruct p s))
       \<and> fst (Destruct q s0) =
           Ret (case dbInst (heap s0 q) of None \<Rightarrow> None | Some r \<Rightarrow> reader_close s0 (ptr r))
       \<and> done_ch (heap (snd (Destruct q s0)) q) = None"
  using assms by (simp add: Destruct_def Let_def since_def split: option.splits)

theorem Destruct_unguarded_second_close_witness:
  "done_ch (heap (snd (snd (GeoIP_Provision reloading on_disk))) 1) = Some ChanOpen
   \<and> done_ch (heap boot 1) = None
   \<and> fst (Destruct 1 (snd (snd (GeoIP_Provision reloading on_disk)))) = Ret None
   \<and> done_ch (heap (snd (Destruct 1 (snd (snd (GeoIP_Provision reloading on_disk))))) 1)
       = Some ChanClosed
   \<and> fst (Destruct 1 (snd (Destruct 1 (snd (snd (GeoIP_Provision reloading on_disk))))))
       = Panic ''close of closed channel''
   \<and> fst (Destruct 1 boot) = Ret None"
proof -
  have a: "done_ch (heap (snd (snd (GeoIP_Provision reloading on_disk))) 1) = Some ChanOpen"
    and r: "dbInst (heap (snd (snd (GeoIP_Provision reloading on_disk))) 1)
             = Some \<lparr>ptr = 2, db = nz_db\<rparr>"
    and c: "reader_close (snd (snd (GeoIP_Provision reloading on_disk))) 2 = None"
    by (simp_all add: run_defs on_disk_def)
  have b: "done_ch (heap boot 1) = None" and i: "dbInst (heap boot 1) = None"
    by (simp_all add: boot_def zero_state_def)
  from Destruct_unguarded_second_close [OF a b] a b r c i
  show ?thesis by simp
qed

text \<open>
  C2, as the claim states it, fails: on the state a handler has provisioned, the first
  \<^verbatim>\<open>Destruct\<close> returns nil and the second panics.
\<close>

theorem second_Destruct_panics:
  "fst (GeoIP_Provision reloading on_disk) = Ret None
   \<and> done_ch (heap (snd (snd (GeoIP_Provision reloading on_disk))) 1) = Some ChanOpen
   \<and> fst (Destruct 1 (snd (snd (GeoIP_Provision reloading on_disk)))) = Ret None
   \<and> fst (Destruct 1 (snd (Destruct 1 (snd (snd (GeoIP_Provision reloading on_disk))))))
       = Panic ''close of closed channel''"
  by (simp add: run_defs on_disk_def Destruct_def)

subsection \<open>Provisioning the handler\<close>






lemma load_env_cong:
  assumes "getenv s' = getenv s"
  shows "load_env m s' = load_env m s"
  unfolding load_env_def assms ..








text \<open>
  C3. The claim asks that an open error at the first provisioning reaches the caller of
  \<^verbatim>\<open>GeoIP.Provision\<close>. With a corrupt file on disk \<^verbatim>\<open>state.Provision\<close> returns "cannot
  open database file ...", but the constructor drops that result: \<^verbatim>\<open>GeoIP.Provision\<close>
  returns nil and the handler is left with a state that holds no reader.
\<close>

theorem open_error_dropped_by_handler:
  "fst (state_Provision 1 reloading (fresh_state corrupt))
     = Ret (Some ''cannot open database file a.mmdb: invalid MaxMind DB file'')
   \<and> fst (GeoIP_Provision reloading corrupt) = Ret None
   \<and> state (fst (snd (GeoIP_Provision reloading corrupt))) = Some 1
   \<and> dbInst (heap (snd (snd (GeoIP_Provision reloading corrupt))) 1) = None"
  by (simp add: run_defs corrupt_def fresh_state_def)

subsection \<open>Serving requests\<close>

lemma serve_unsplit:
  assumes "SplitHostPort (RemoteAddr (trust_header m r)) = Inl why"
  shows "ServeHTTP m r s =
           (Ret (Next (trust_header m r)),
            logger Warn ''cannot parse IP address''
              (logger Warn ''cannot split IP address'' (logger Debug ''loading ip address'' s)))"
  using assms by (simp add: ServeHTTP_def Let_def)

lemma serve_unparsed:
  assumes "SplitHostPort (RemoteAddr (trust_header m r)) = Inr (host, port)"
      and "ParseIP (parseIPv4 s) (parseIPv6 s) host host = None"
  shows "ServeHTTP m r s =
           (Ret (Next (trust_header m r)),
            logger Warn ''cannot parse IP address'' (logger Debug ''loading ip address'' s))"
  using assms by (simp add: ServeHTTP_def Let_def)


lemma serve_lookup:
  assumes "SplitHostPort (RemoteAddr (trust_header m r)) = Inr (host, port)"
      and "ParseIP (parseIPv4 s) (parseIPv6 s) host host = Some addr"
      and "state m = Some p" and "dbInst (heap s p) = Some rd"
  shows "fst (ServeHTTP m r s) =
           (case db rd addr of
              LookupError e \<Rightarrow> Ret (Failed e)
            | NoMatch \<Rightarrow>
                Ret (Next ((trust_header m r)\<lparr>repl := (repl (trust_header m r))
                  (''geoip.country_code'' \<mapsto> OverrideCountryCode m)\<rparr>))
            | Match rc \<Rightarrow>
                Ret (Next ((trust_header m r)\<lparr>repl := (repl (trust_header m r))
                  (''geoip.country_code'' \<mapsto>
                     (if OverrideCountryCode m \<noteq> [] \<and> GeonameId (Country rc) = 0
                      then OverrideCountryCode m else ISOCode (Country rc)))\<rparr>)))"
  using assms
  by (simp add: ServeHTTP_def Let_def repl_Set_def zero_Record_def split: lookup_result.splits)




text \<open>
  C8, as the code has it. When the trusted header is configured and present and its
  value does not split into host and port, \<^verbatim>\<open>ServeHTTP\<close> logs the two warnings and passes
  the request on with the header's value as \<^verbatim>\<open>RemoteAddr\<close>: the host it parses is the
  empty string, no lookup takes place, and \<^verbatim>\<open>geoip.country_code\<close> is left as it was.
\<close>

theorem unsplit_header_skips_lookup:
  assumes "TrustHeader m \<noteq> []" and "Header_Get r (TrustHeader m) = v" and "v \<noteq> []"
      and "SplitHostPort v = Inl why"
  shows "fst (ServeHTTP m r s) = Ret (Next (r\<lparr>RemoteAddr := v\<rparr>))
       \<and> published (fst (ServeHTTP m r s)) = repl r ''geoip.country_code''
       \<and> since s (snd (ServeHTTP m r s)) =
           [Log Debug ''loading ip address'', Log Warn ''cannot split IP address'',
            Log Warn ''cannot parse IP address'']"
proof -
  have t: "trust_header m r = r\<lparr>RemoteAddr := v\<rparr>" using assms by (simp add: trust_header_def)
  then have "SplitHostPort (RemoteAddr (trust_header m r)) = Inl why" using assms by simp
  from serve_unsplit [OF this, of s] t show ?thesis
    by (simp add: published_def since_def)
qed

theorem unsplit_header_skips_lookup_witness:
  "TrustHeader trusting \<noteq> []
   \<and> Header_Get (via_proxy ''202.36.75.151'') (TrustHeader trusting) = ''202.36.75.151''
   \<and> SplitHostPort ''202.36.75.151'' = Inl ''missing port in address''
   \<and> fst (ServeHTTP trusting (via_proxy ''202.36.75.151'') loaded)
       = Ret (Next ((via_proxy ''202.36.75.151'')\<lparr>RemoteAddr := ''202.36.75.151''\<rparr>))
   \<and> published (fst (ServeHTTP trusting (via_proxy ''202.36.75.151'') loaded)) = None"
  using unsplit_header_skips_lookup
          [of trusting "via_proxy ''202.36.75.151''" "''202.36.75.151''"
              "''missing port in address''" loaded]
  by (simp add: trusting_def reloading_def via_proxy_def SplitHostPort_def last_index_def
        published_def)

text \<open>
  C8, as the claim states it, fails: the header value \<^verbatim>\<open>202.36.75.151\<close> is a valid address
  with an entry in the database, yet no lookup takes place and nothing is published;
  the same address with a port is looked up and publishes \<^verbatim>\<open>NZ\<close>.
\<close>

theorem header_without_port_skips_lookup:
  "Header_Get (via_proxy ''202.36.75.151'') (TrustHeader trusting) = ''202.36.75.151''
   \<and> SplitHostPort ''202.36.75.151'' = Inl ''missing port in address''
   \<and> ParseIP (parseIPv4 loaded) (parseIPv6 loaded) ''202.36.75.151'' ''202.36.75.151''
       = Some [202, 36, 75, 151]
   \<and> nz_db [202, 36, 75, 151] = Match \<lparr>Country = \<lparr>ISOCode = ''NZ'', GeonameId = 2186224\<rparr>\<rparr>
   \<and> published (fst (ServeHTTP trusting (via_proxy ''202.36.75.151'') loaded)) = None
   \<and> since loaded (snd (ServeHTTP trusting (via_proxy ''202.36.75.151'') loaded)) =
        [Log Debug ''loading ip address'', Log Warn ''cannot split IP address'',
         Log Warn ''cannot parse IP address'']
   \<and> published (fst (ServeHTTP trusting (via_proxy ''202.36.75.151:3000'') loaded)) = Some ''NZ''"
  by (simp add: trusting_def reloading_def via_proxy_def trust_header_def loaded_def boot_def
        nz_db_def SplitHostPort_def last_index_def ServeHTTP_def Let_def repl_Set_def
        since_def published_def logger_def emit_def)

text \<open>
  C9. With a reader loaded, an address that parses, a lookup that returns no error and
  matches no entry, and no override configured, the request is passed on with
  \<^verbatim>\<open>geoip.country_code\<close> set to the empty string, the code of the zero record, and not to
  \<^verbatim>\<open>--\<close>; the lookup did take place.
\<close>

theorem no_match_publishes_empty_code:
  assumes "SplitHostPort (RemoteAddr (trust_header m r)) = Inr (host, port)"
      and "ParseIP (parseIPv4 s) (parseIPv6 s) host host = Some addr"
      and "state m = Some p" and "dbInst (heap s p) = Some rd"
      and "db rd addr = NoMatch"
      and "OverrideCountryCode m = []"
  shows "published (fst (ServeHTTP m r s)) = Some []
       \<and> published (fst (ServeHTTP m r s)) \<noteq> Some ''--''
       \<and> since s (snd (ServeHTTP m r s)) =
           [Log Debug ''loading ip address'', Looked (ptr rd) addr, Log Debug ''found maxmind data'']"
  using assms
  by (simp add: ServeHTTP_def Let_def repl_Set_def zero_Record_def since_def published_def)

theorem no_match_publishes_empty_code_witness:
  "SplitHostPort (RemoteAddr (trust_header trusting (via_proxy ''10.0.0.1:3000''))) = Inr (''10.0.0.1'', ''3000'')
   \<and> ParseIP (parseIPv4 loaded) (parseIPv6 loaded) ''10.0.0.1'' ''10.0.0.1'' = Some [10, 0, 0, 1]
   \<and> dbInst (heap loaded 1) = Some \<lparr>ptr = 2, db = nz_db\<rparr>
   \<and> nz_db [10, 0, 0, 1] = NoMatch
   \<and> OverrideCountryCode trusting = []
   \<and> published (fst (ServeHTTP trusting (via_proxy ''10.0.0.1:3000'') loaded)) = Some []"
  using no_match_publishes_empty_code
          [of trusting "via_proxy ''10.0.0.1:3000''" "''10.0.0.1''" "''3000''" loaded
              "[10, 0, 0, 1]" 1 "\<lparr>ptr = 2, db = nz_db\<rparr>"]
  by (simp add: trusting_def reloading_def via_proxy_def trust_header_def loaded_def boot_def
        nz_db_def SplitHostPort_def last_index_def)

end
